theory Spec2Isabelle
  imports Main "HOL-Library.Sublist" "HOL-Library.Multiset"
begin

section \<open>Data model (frontend/src/types/compliance.ts)\<close>

text \<open>
  The TypeScript unions of string literals are closed enumerations. At run time their
  values are plain strings, and the pages compare them with \<^verbatim>\<open>===\<close> across the
  unions, so each enumeration comes with the string it stands for.
\<close>

datatype Severity = Critical | High | Medium | Low

datatype ViolationStatus = Open | NeedsReview | Resolved | Dismissed

datatype RiskLevel = RiskCritical | RiskHigh | RiskMedium | RiskLow | RiskMinimal

fun severityStr :: "Severity \<Rightarrow> string" where
  "severityStr Critical = ''critical''"
| "severityStr High = ''high''"
| "severityStr Medium = ''medium''"
| "severityStr Low = ''low''"

fun statusStr :: "ViolationStatus \<Rightarrow> string" where
  "statusStr Open = ''open''"
| "statusStr NeedsReview = ''needs_review''"
| "statusStr Resolved = ''resolved''"
| "statusStr Dismissed = ''dismissed''"

record Reflection =
  initialFinding :: string
  reflectionNotes :: string
  finalDecision :: string

text \<open>
  The field \<^verbatim>\<open>id\<close> of the interface is \<open>idV\<close> here (\<open>id\<close> is the identity function of
  HOL). The optional \<^verbatim>\<open>reflection\<close> is an option. The numbers of the repository's data
  are integers.
\<close>

record Violation =
  idV :: string
  ruleId :: string
  title :: string
  description :: string
  severity :: Severity
  status :: ViolationStatus
  evidence :: string
  reasoning :: string
  remediation :: string
  confidence :: int
  category :: string
  detectedAt :: string
  reflection :: "Reflection option"

record ComplianceMetrics =
  complianceScore :: int
  criticalIssues :: int
  moderateIssues :: int
  missingArtifacts :: int
  totalViolations :: int
  riskLevel :: RiskLevel

section \<open>The repository's data (frontend/src/data/mockData.ts)\<close>

definition mockMetrics :: ComplianceMetrics where
  "mockMetrics = \<lparr>
     complianceScore = 78,
     criticalIssues = 3,
     moderateIssues = 8,
     missingArtifacts = 2,
     totalViolations = 13,
     riskLevel = RiskMedium\<rparr>"

text \<open>
  The eight records of \<^verbatim>\<open>mockViolations\<close>, in the order of the array; each is named
  after its \<^verbatim>\<open>id\<close>.
\<close>

definition v_001 :: Violation where
  \<open>v_001 = \<lparr>
     idV = ''v-001'',
     ruleId = ''SEC-007'',
     title = ''Missing encryption at rest for sensitive data storage'',
     description = ''The application stores sensitive user data without implementing encryption at rest, violating data protection requirements.'',
     severity = Critical,
     status = Open,
     evidence = ''"userData is stored in plaintext format in the local database without any encryption mechanism applied." - Found in database.config.ts, line 47'',
     reasoning = ''The agent identified that the database configuration explicitly disables encryption (encryption: false) for the user_data collection. This configuration combined with the storage of PII fields (email, phone, address) creates a critical compliance gap.'',
     remediation = ''1. Enable AES-256 encryption for the user_data collection\<newline>2. Implement key rotation policy\<newline>3. Update database.config.ts to set encryption: true\<newline>4. Audit existing data and re-encrypt if necessary'',
     confidence = 94,
     category = ''Data Protection'',
     detectedAt = ''2024-01-15T14:28:00Z'',
     reflection = Some \<lparr>
       initialFinding = ''Detected unencrypted storage configuration for user data collection.'',
       reflectionNotes = ''Cross-referenced with compliance rule SEC-007 which mandates encryption at rest for all PII. Verified that the stored fields (email, phone, address) qualify as PII under GDPR and CCPA definitions.'',
       finalDecision = ''Confirmed as Critical violation. Unencrypted PII storage poses significant regulatory and security risk.''\<rparr>\<rparr>\<close>

definition v_002 :: Violation where
  \<open>v_002 = \<lparr>
     idV = ''v-002'',
     ruleId = ''AUTH-012'',
     title = ''Inadequate session timeout configuration'',
     description = ''User sessions remain active indefinitely without automatic timeout, creating security vulnerabilities.'',
     severity = High,
     status = NeedsReview,
     evidence = ''"sessionTimeout: -1" found in auth.config.js - indicates sessions never expire automatically.'',
     reasoning = ''The authentication configuration sets session timeout to -1, which disables automatic session expiration. This violates security best practices and compliance requirements for session management.'',
     remediation = ''1. Set sessionTimeout to 30 minutes (1800000ms) for standard users\<newline>2. Implement idle timeout of 15 minutes\<newline>3. Add session refresh mechanism for active users'',
     confidence = 98,
     category = ''Authentication'',
     detectedAt = ''2024-01-15T14:25:00Z'',
     reflection = None\<rparr>\<close>

definition v_003 :: Violation where
  \<open>v_003 = \<lparr>
     idV = ''v-003'',
     ruleId = ''LOG-003'',
     title = ''Insufficient audit logging for administrative actions'',
     description = ''Administrative actions are not being logged with required detail level for compliance audit trails.'',
     severity = High,
     status = Open,
     evidence = ''Admin controller functions lack @AuditLog decorators. Only 3 of 12 admin endpoints have logging enabled.'',
     reasoning = ''The agent scanned all admin controller files and found that audit logging decorators are inconsistently applied. Critical operations like user deletion and permission changes have no audit trail.'',
     remediation = ''1. Add @AuditLog decorator to all admin controller methods\<newline>2. Include user context, timestamp, and action details\<newline>3. Ensure logs are written to immutable storage'',
     confidence = 91,
     category = ''Audit Logging'',
     detectedAt = ''2024-01-15T14:26:00Z'',
     reflection = None\<rparr>\<close>

definition v_004 :: Violation where
  \<open>v_004 = \<lparr>
     idV = ''v-004'',
     ruleId = ''SEC-015'',
     title = ''API keys exposed in client-side code'',
     description = ''Sensitive API keys are bundled into the client-side JavaScript, making them accessible to end users.'',
     severity = Critical,
     status = Open,
     evidence = ''STRIPE_SECRET_KEY found in bundle.js after build process. Variable referenced in payment.service.ts line 23.'',
     reasoning = ''Build analysis revealed that environment variables prefixed with NEXT_PUBLIC_ include a secret key that should remain server-side only. This exposes the payment provider credentials.'',
     remediation = ''1. Move STRIPE_SECRET_KEY to server-side only environment\<newline>2. Create API route for payment processing\<newline>3. Audit all NEXT_PUBLIC_ variables for sensitive data\<newline>4. Rotate compromised API keys immediately'',
     confidence = 99,
     category = ''Secrets Management'',
     detectedAt = ''2024-01-15T14:24:00Z'',
     reflection = None\<rparr>\<close>

definition v_005 :: Violation where
  \<open>v_005 = \<lparr>
     idV = ''v-005'',
     ruleId = ''DOC-001'',
     title = ''Missing security architecture documentation'',
     description = ''Required security architecture documentation is not present in the repository.'',
     severity = Medium,
     status = NeedsReview,
     evidence = ''Expected file docs/security-architecture.md not found. No alternative documentation detected in /docs or /security folders.'',
     reasoning = ''Compliance requirements mandate documented security architecture including data flow diagrams, encryption specifications, and access control matrix. None of these artifacts were found.'',
     remediation = ''1. Create docs/security-architecture.md\<newline>2. Include data flow diagrams\<newline>3. Document encryption standards in use\<newline>4. Add access control matrix for all user roles'',
     confidence = 100,
     category = ''Documentation'',
     detectedAt = ''2024-01-15T14:30:00Z'',
     reflection = None\<rparr>\<close>

definition v_006 :: Violation where
  \<open>v_006 = \<lparr>
     idV = ''v-006'',
     ruleId = ''DEP-008'',
     title = ''Outdated dependency with known vulnerability'',
     description = ''The lodash package version 4.17.15 has a known prototype pollution vulnerability (CVE-2020-8203).'',
     severity = Medium,
     status = Open,
     evidence = ''package.json specifies "lodash": "4.17.15". Known vulnerable to CVE-2020-8203 (CVSS 7.4).'',
     reasoning = ''Dependency analysis identified lodash at version 4.17.15 which is affected by a high-severity prototype pollution vulnerability. The current version is significantly behind the patched release.'',
     remediation = ''1. Update lodash to version 4.17.21 or later\<newline>2. Run npm audit to verify fix\<newline>3. Test application functionality after update'',
     confidence = 100,
     category = ''Dependencies'',
     detectedAt = ''2024-01-15T14:29:00Z'',
     reflection = None\<rparr>\<close>

definition v_007 :: Violation where
  \<open>v_007 = \<lparr>
     idV = ''v-007'',
     ruleId = ''ACC-002'',
     title = ''Missing role-based access control on API endpoints'',
     description = ''Several API endpoints lack proper RBAC implementation, allowing unauthorized access to protected resources.'',
     severity = High,
     status = Open,
     evidence = ''/api/admin/users endpoint accessible without admin role check. Middleware chain missing @RequireRole decorator.'',
     reasoning = ''Analysis of route handlers revealed that admin-prefixed routes do not consistently enforce role requirements. The /users endpoint can be accessed by any authenticated user.'',
     remediation = ''1. Add @RequireRole("admin") decorator to all /api/admin/* routes\<newline>2. Implement middleware to validate roles before handler execution\<newline>3. Add integration tests for role enforcement'',
     confidence = 96,
     category = ''Access Control'',
     detectedAt = ''2024-01-15T14:27:00Z'',
     reflection = None\<rparr>\<close>

definition v_008 :: Violation where
  \<open>v_008 = \<lparr>
     idV = ''v-008'',
     ruleId = ''PRIV-004'',
     title = ''Privacy policy link missing from registration flow'',
     description = ''User registration does not include required privacy policy acknowledgment.'',
     severity = Low,
     status = Resolved,
     evidence = ''Registration form component (RegisterForm.tsx) lacks privacy policy checkbox or link.'',
     reasoning = ''GDPR and CCPA require explicit user consent and acknowledgment of privacy policy during data collection. The registration form collects PII without this required disclosure.'',
     remediation = ''1. Add privacy policy link to registration form\<newline>2. Implement checkbox for explicit consent\<newline>3. Store consent timestamp in user record'',
     confidence = 100,
     category = ''Privacy'',
     detectedAt = ''2024-01-15T14:31:00Z'',
     reflection = None\<rparr>\<close>

definition mockViolations :: "Violation list" where
  "mockViolations = [v_001, v_002, v_003, v_004, v_005, v_006, v_007, v_008]"

section \<open>The pages' queries\<close>

text \<open>
  The pages read the module constant \<^verbatim>\<open>mockViolations\<close>; here each query takes the
  violation list as its argument \<open>V\<close>, and the page is the query at \<open>mockViolations\<close>.
  \<^verbatim>\<open>Array.prototype.filter\<close> keeps the elements its callback accepts, in the order of the
  array: it is \<^const>\<open>filter\<close> on lists.
\<close>

subsection \<open>Violations page: the filter buttons\<close>

text \<open>
  \<^verbatim>\<open>type FilterType = "all" | Severity | ViolationStatus\<close>: the state \<^verbatim>\<open>activeFilter\<close> holds
  one of these strings.
\<close>

datatype FilterType = FilterAll | FilterSeverity Severity | FilterStatus ViolationStatus

fun filterStr :: "FilterType \<Rightarrow> string" where
  "filterStr FilterAll = ''all''"
| "filterStr (FilterSeverity s) = severityStr s"
| "filterStr (FilterStatus t) = statusStr t"

text \<open>
  The callback of \<^verbatim>\<open>filteredViolations\<close>:
  \<^verbatim>\<open>if (activeFilter === "all") return true;
  return v.severity === activeFilter || v.status === activeFilter;\<close>
\<close>

definition matchesFilter :: "FilterType \<Rightarrow> Violation \<Rightarrow> bool" where
  "matchesFilter activeFilter v =
     (if filterStr activeFilter = ''all'' then True
      else severityStr (severity v) = filterStr activeFilter
         \<or> statusStr (status v) = filterStr activeFilter)"

definition filteredViolations :: "FilterType \<Rightarrow> Violation list \<Rightarrow> Violation list" where
  "filteredViolations activeFilter V = filter (matchesFilter activeFilter) V"

subsection \<open>Dashboard: the Active Violations list\<close>

text \<open>
  \<^verbatim>\<open>mockViolations.filter((v) => v.status === "open" || v.status === "needs_review")\<close>
\<close>

definition isActive :: "Violation \<Rightarrow> bool" where
  "isActive v = (statusStr (status v) = ''open'' \<or> statusStr (status v) = ''needs_review'')"

definition activeViolations :: "Violation list \<Rightarrow> Violation list" where
  "activeViolations V = filter isActive V"

subsection \<open>Reports page: findings by severity\<close>

definition isCriticalSeverity :: "Violation \<Rightarrow> bool" where
  "isCriticalSeverity v = (severityStr (severity v) = ''critical'')"

definition isHighSeverity :: "Violation \<Rightarrow> bool" where
  "isHighSeverity v = (severityStr (severity v) = ''high'')"

definition isOtherSeverity :: "Violation \<Rightarrow> bool" where
  "isOtherSeverity v =
     (severityStr (severity v) \<noteq> ''critical'' \<and> severityStr (severity v) \<noteq> ''high'')"

definition criticalViolations :: "Violation list \<Rightarrow> Violation list" where
  "criticalViolations V = filter isCriticalSeverity V"

definition highViolations :: "Violation list \<Rightarrow> Violation list" where
  "highViolations V = filter isHighSeverity V"

definition otherViolations :: "Violation list \<Rightarrow> Violation list" where
  "otherViolations V = filter isOtherSeverity V"

subsection \<open>Dashboard: the risk indicator (RiskIndicator.tsx)\<close>

text \<open>The \<^verbatim>\<open>label\<close> of \<^verbatim>\<open>riskConfig[level]\<close>, which the indicator prints.\<close>

fun riskLabel :: "RiskLevel \<Rightarrow> string" where
  "riskLabel RiskCritical = ''Critical Risk''"
| "riskLabel RiskHigh = ''High Risk''"
| "riskLabel RiskMedium = ''Medium Risk''"
| "riskLabel RiskLow = ''Low Risk''"
| "riskLabel RiskMinimal = ''Minimal Risk''"

section \<open>The counts the specification compares the metrics with\<close>

text \<open>
  The pages print the fields of the literal \<open>mockMetrics\<close>. The three counts below are the
  specification's formulas for \<^verbatim>\<open>criticalIssues\<close>, \<^verbatim>\<open>moderateIssues\<close> and
  \<^verbatim>\<open>missingArtifacts\<close> (active status: \<^verbatim>\<open>open\<close> or \<^verbatim>\<open>needs_review\<close>), written down so that
  the literal can be compared with them.
\<close>

definition activeCriticalCount :: "Violation list \<Rightarrow> nat" where
  "activeCriticalCount V =
     length (filter (\<lambda>v. severity v = Critical
                          \<and> (status v = Open \<or> status v = NeedsReview)) V)"



section \<open>Lifecycle state machine\<close>

text \<open>
  Modelled from the spec: the transition function of the Lifecycle State Machine
  (section 4.3 of the specification). The sources declare the type \<^verbatim>\<open>ViolationStatus\<close>
  and never change a status; no transition function is among them. The legal
  transitions are \<^verbatim>\<open>open -> needs_review\<close>, \<^verbatim>\<open>open -> resolved\<close>,
  \<^verbatim>\<open>needs_review -> resolved\<close>, \<^verbatim>\<open>open -> dismissed\<close> and \<^verbatim>\<open>needs_review -> dismissed\<close>;
  all others are rejected with \<^verbatim>\<open>IllegalTransition\<close>; a legal dismissal whose reason is
  missing or empty is rejected with \<^verbatim>\<open>MissingJustification\<close>. A review action carries
  the target status and an optional justification.
\<close>

datatype TransitionError = IllegalTransition | MissingJustification

fun legalTransition :: "ViolationStatus \<Rightarrow> ViolationStatus \<Rightarrow> bool" where
  "legalTransition Open NeedsReview = True"
| "legalTransition Open Resolved = True"
| "legalTransition NeedsReview Resolved = True"
| "legalTransition Open Dismissed = True"
| "legalTransition NeedsReview Dismissed = True"
| "legalTransition _ _ = False"

definition transition ::
  "Violation \<Rightarrow> ViolationStatus \<Rightarrow> string option \<Rightarrow> TransitionError + Violation" where
  "transition v targetStatus justification =
     (if \<not> legalTransition (status v) targetStatus then Inl IllegalTransition
      else if targetStatus = Dismissed \<and> (justification = None \<or> justification = Some [])
        then Inl MissingJustification
      else Inr (v\<lparr>status := targetStatus\<rparr>))"

text \<open>
  Modelled from the spec: the record a transition attempt leaves behind. A rejected
  attempt mutates nothing ("reject, no partial mutation").
\<close>

definition afterAttempt :: "Violation \<Rightarrow> ViolationStatus \<Rightarrow> string option \<Rightarrow> Violation" where
  "afterAttempt v targetStatus justification =
     (case transition v targetStatus justification of Inl e \<Rightarrow> v | Inr v' \<Rightarrow> v')"

section \<open>Facts about the enumerations' strings\<close>

lemma severityStr_critical: "(severityStr s = ''critical'') = (s = Critical)"
  by (cases s) simp_all

lemma severityStr_high: "(severityStr s = ''high'') = (s = High)"
  by (cases s) simp_all

lemma statusStr_open: "(statusStr t = ''open'') = (t = Open)"
  by (cases t) simp_all

lemma statusStr_needs_review: "(statusStr t = ''needs_review'') = (t = NeedsReview)"
  by (cases t) simp_all

text \<open>No status string is a severity string: the two unions are disjoint.\<close>

lemma statusStr_not_severity: "statusStr t \<noteq> severityStr s"
  by (cases t; cases s) simp_all

lemma isActive_eq: "isActive = (\<lambda>v. status v = Open \<or> status v = NeedsReview)"
  by (rule ext) (simp add: isActive_def statusStr_open statusStr_needs_review)

lemma matchesFilter_all: "matchesFilter FilterAll = (\<lambda>v. True)"
  by (rule ext) (simp add: matchesFilter_def)

lemma matchesFilter_critical:
  "matchesFilter (FilterSeverity Critical) = (\<lambda>v. severity v = Critical)"
proof (rule ext)
  fix v :: Violation
  have "statusStr (status v) \<noteq> ''critical''"
    using statusStr_not_severity [of "status v" Critical] by simp
  then show "matchesFilter (FilterSeverity Critical) v = (severity v = Critical)"
    by (simp add: matchesFilter_def severityStr_critical)
qed

lemma isCriticalSeverity_eq: "isCriticalSeverity = (\<lambda>v. severity v = Critical)"
  by (rule ext) (simp add: isCriticalSeverity_def severityStr_critical)

lemma isHighSeverity_eq: "isHighSeverity = (\<lambda>v. severity v = High)"
  by (rule ext) (simp add: isHighSeverity_def severityStr_high)

lemma isOtherSeverity_eq:
  "isOtherSeverity = (\<lambda>v. severity v \<noteq> Critical \<and> severity v \<noteq> High)"
  by (rule ext) (simp add: isOtherSeverity_def severityStr_critical severityStr_high)

section \<open>Facts about the repository's data\<close>

lemma v_001_fields:
  "severity v_001 = Critical" "status v_001 = Open" "category v_001 = ''Data Protection''"
  by (simp_all add: v_001_def)

lemma v_002_fields:
  "severity v_002 = High" "status v_002 = NeedsReview" "category v_002 = ''Authentication''"
  by (simp_all add: v_002_def)

lemma v_003_fields:
  "severity v_003 = High" "status v_003 = Open" "category v_003 = ''Audit Logging''"
  by (simp_all add: v_003_def)

lemma v_004_fields:
  "severity v_004 = Critical" "status v_004 = Open" "category v_004 = ''Secrets Management''"
  by (simp_all add: v_004_def)

lemma v_005_fields:
  "severity v_005 = Medium" "status v_005 = NeedsReview" "category v_005 = ''Documentation''"
  by (simp_all add: v_005_def)

lemma v_006_fields:
  "severity v_006 = Medium" "status v_006 = Open" "category v_006 = ''Dependencies''"
  by (simp_all add: v_006_def)

lemma v_007_fields:
  "severity v_007 = High" "status v_007 = Open" "category v_007 = ''Access Control''"
  by (simp_all add: v_007_def)

lemma v_008_fields:
  "severity v_008 = Low" "status v_008 = Resolved" "category v_008 = ''Privacy''"
  by (simp_all add: v_008_def)

lemmas mock_fields =
  v_001_fields v_002_fields v_003_fields v_004_fields
  v_005_fields v_006_fields v_007_fields v_008_fields

lemma mockMetrics_fields:
  "complianceScore mockMetrics = 78" "criticalIssues mockMetrics = 3"
  "moderateIssues mockMetrics = 8" "missingArtifacts mockMetrics = 2"
  "totalViolations mockMetrics = 13" "riskLevel mockMetrics = RiskMedium"
  by (simp_all add: mockMetrics_def)

lemma length_mockViolations: "length mockViolations = 8"
  by (simp add: mockViolations_def)

lemma activeCriticalCount_mock: "activeCriticalCount mockViolations = 2"
  by (simp add: activeCriticalCount_def mockViolations_def mock_fields)



section \<open>The metrics literal against the violation list\<close>

text \<open>
  C1, as amended. \<^verbatim>\<open>totalViolations\<close> of \<open>mockMetrics\<close> is the literal 13; it is an upper
  bound of, not equal to, the number of Violation records of \<open>mockViolations\<close>, which
  is 8.
\<close>

theorem mockMetrics_totalViolations:
  "totalViolations mockMetrics = 13
   \<and> length mockViolations = 8
   \<and> int (length mockViolations) < totalViolations mockMetrics"
  by (simp add: mockMetrics_fields length_mockViolations)

text \<open>
  C1 as stated fails on the repository's data: \<^verbatim>\<open>totalViolations\<close> of \<open>mockMetrics\<close> is
  not the number of records of \<open>mockViolations\<close>.
\<close>

theorem totalViolations_not_cardinality:
  "totalViolations mockMetrics \<noteq> int (length mockViolations)"
  by (simp add: mockMetrics_fields length_mockViolations)



text \<open>
  C3, as amended. \<open>mockMetrics\<close> reports \<^verbatim>\<open>criticalIssues\<close> = 3, greater than zero, and
  \<open>mockViolations\<close> holds 2 Violations with severity critical and status open or
  needs_review; the risk level of \<open>mockMetrics\<close> is \<^verbatim>\<open>medium\<close>, which the dashboard
  prints as "Medium Risk": it is neither \<^verbatim>\<open>high\<close> nor \<^verbatim>\<open>critical\<close>.
\<close>

theorem mockMetrics_riskLevel:
  "criticalIssues mockMetrics = 3
   \<and> 0 < criticalIssues mockMetrics
   \<and> activeCriticalCount mockViolations = 2
   \<and> riskLevel mockMetrics = RiskMedium
   \<and> riskLabel (riskLevel mockMetrics) = ''Medium Risk''
   \<and> riskLevel mockMetrics \<noteq> RiskHigh
   \<and> riskLevel mockMetrics \<noteq> RiskCritical"
  by (simp add: mockMetrics_fields activeCriticalCount_mock)

text \<open>
  C3 as stated fails on the repository's data: critical findings are active and the
  risk level is neither \<^verbatim>\<open>high\<close> nor \<^verbatim>\<open>critical\<close>.
\<close>

theorem riskLevel_below_high_with_active_critical:
  "0 < criticalIssues mockMetrics
   \<and> 0 < activeCriticalCount mockViolations
   \<and> riskLevel mockMetrics \<noteq> RiskHigh
   \<and> riskLevel mockMetrics \<noteq> RiskCritical"
  by (simp add: mockMetrics_fields activeCriticalCount_mock)





section \<open>The filters\<close>

text \<open>
  C4. With \<^verbatim>\<open>activeFilter = "critical"\<close> the Violations page's filter returns exactly the
  Violations of severity critical, in the order of the input: none of another severity
  is included (no status string equals "critical") and none is omitted.
\<close>

theorem filteredViolations_critical:
  "filteredViolations (FilterSeverity Critical) V = filter (\<lambda>v. severity v = Critical) V
   \<and> subseq (filteredViolations (FilterSeverity Critical) V) V"
  by (simp add: filteredViolations_def matchesFilter_critical)

text \<open>
  C5. With \<^verbatim>\<open>activeFilter = "all"\<close> the filter returns its input unchanged, and for every
  value of \<^verbatim>\<open>activeFilter\<close> the result is a subsequence of the input: the filter never
  reorders.
\<close>

theorem filteredViolations_all_and_order:
  "filteredViolations FilterAll V = V \<and> subseq (filteredViolations activeFilter V) V"
  by (simp add: filteredViolations_def matchesFilter_all)

text \<open>
  C9. The dashboard's Active Violations list is exactly the Violations with status open
  or needs_review, in the order of the input; no Violation with status resolved or
  dismissed is in it.
\<close>

theorem activeViolations_exact:
  "activeViolations V = filter (\<lambda>v. status v = Open \<or> status v = NeedsReview) V
   \<and> subseq (activeViolations V) V
   \<and> (\<forall>v \<in> set (activeViolations V). status v \<noteq> Resolved \<and> status v \<noteq> Dismissed)"
  by (auto simp add: activeViolations_def isActive_eq)

text \<open>
  On the repository's data: the open record \<^verbatim>\<open>v-001\<close> is listed, the resolved record
  \<^verbatim>\<open>v-008\<close> is not.
\<close>

theorem activeViolations_exact_witness:
  "v_001 \<in> set (activeViolations mockViolations)
   \<and> status v_001 \<noteq> Resolved \<and> status v_001 \<noteq> Dismissed
   \<and> v_008 \<notin> set (activeViolations mockViolations)"
proof -
  have eq: "activeViolations mockViolations =
      filter (\<lambda>v. status v = Open \<or> status v = NeedsReview) mockViolations"
    and all: "\<forall>v \<in> set (activeViolations mockViolations).
      status v \<noteq> Resolved \<and> status v \<noteq> Dismissed"
    using activeViolations_exact [of mockViolations] by simp_all
  have mem: "v_001 \<in> set (activeViolations mockViolations)"
    unfolding eq by (simp add: mockViolations_def mock_fields)
  have "v_008 \<notin> set (activeViolations mockViolations)"
    using all v_008_fields(2) by blast
  with mem all show ?thesis by blast
qed

text \<open>
  C10. The three severity groups of the Reports page partition the violation list: as
  multisets they add up to the list, so do their sizes, each group is a subsequence of
  the list, and no Violation is in two groups.
\<close>

theorem reports_partition:
  "mset (criticalViolations V) + mset (highViolations V) + mset (otherViolations V) = mset V
   \<and> length (criticalViolations V) + length (highViolations V) + length (otherViolations V)
       = length V
   \<and> subseq (criticalViolations V) V \<and> subseq (highViolations V) V
   \<and> subseq (otherViolations V) V
   \<and> set (criticalViolations V) \<inter> set (highViolations V) = {}
   \<and> set (criticalViolations V) \<inter> set (otherViolations V) = {}
   \<and> set (highViolations V) \<inter> set (otherViolations V) = {}"
proof -
  have part: "mset (filter isCriticalSeverity V) + mset (filter isHighSeverity V)
      + mset (filter isOtherSeverity V) = mset V"
    by (induction V) (auto simp add: isCriticalSeverity_eq isHighSeverity_eq isOtherSeverity_eq)
  have len: "length (filter isCriticalSeverity V) + length (filter isHighSeverity V)
      + length (filter isOtherSeverity V) = length V"
    by (induction V) (auto simp add: isCriticalSeverity_eq isHighSeverity_eq isOtherSeverity_eq)
  have disj: "set (filter isCriticalSeverity V) \<inter> set (filter isHighSeverity V) = {}"
    "set (filter isCriticalSeverity V) \<inter> set (filter isOtherSeverity V) = {}"
    "set (filter isHighSeverity V) \<inter> set (filter isOtherSeverity V) = {}"
    by (auto simp add: isCriticalSeverity_eq isHighSeverity_eq isOtherSeverity_eq)
  show ?thesis
    unfolding criticalViolations_def highViolations_def otherViolations_def
    using part len disj by simp
qed

section \<open>Terminal states\<close>

text \<open>
  C6. From the status resolved or dismissed, every transition attempt, whatever its
  target and justification, fails with \<^verbatim>\<open>IllegalTransition\<close> and leaves the Violation
  as it was.
\<close>

theorem terminal_status_rejects_transition:
  "status v = Resolved \<or> status v = Dismissed \<Longrightarrow>
     transition v targetStatus justification = Inl IllegalTransition
     \<and> afterAttempt v targetStatus justification = v"
  by (auto simp add: transition_def afterAttempt_def)

text \<open>On the resolved record \<^verbatim>\<open>v-008\<close>: re-opening it is rejected.\<close>

theorem terminal_status_rejects_transition_witness:
  "status v_008 = Resolved
   \<and> transition v_008 Open None = Inl IllegalTransition
   \<and> afterAttempt v_008 Open None = v_008"
  using terminal_status_rejects_transition [of v_008 Open None] by (simp add: v_008_fields)

end
